theory Spec2Isabelle
  imports Main
begin

section \<open>The file-diff module of the EIP bot\<close>

text \<open>
  A shallow embedding of \<^verbatim>\<open>src/modules/file/get_file_diff.ts\<close>: the four functions
  \<^verbatim>\<open>getFileDiff\<close>, \<^verbatim>\<open>formatFile\<close>, \<^verbatim>\<open>getParsedContent\<close> and \<^verbatim>\<open>getAuthors\<close> (with its two
  inner functions \<^verbatim>\<open>findUserByEmail\<close> and \<^verbatim>\<open>resolveAuthor\<close>).

  The module imports everything else (\<^verbatim>\<open>#domain\<close>, \<^verbatim>\<open>#assertions\<close>, the GitHub client,
  \<^verbatim>\<open>front-matter\<close>); those collaborators are parameters of the model, gathered in the
  record \<open>env\<close>. Each of them is a fixed function of its arguments during one formatting
  of a file; between the two formattings of \<open>getFileDiff\<close> the user search may change its
  answers. Creating the GitHub client (\<^verbatim>\<open>getOctokit(GITHUB_TOKEN)\<close>) belongs to the call
  made through it. A rejected promise or a thrown value is the \<open>Inl\<close> branch of a sum type.
\<close>

subsection \<open>Errors and truthiness\<close>

datatype error =
    Thrown string  \<comment> \<open>a string thrown by this module: \<^verbatim>\<open>throw `...`\<close>\<close>
  | TypeError      \<comment> \<open>a method call on \<^verbatim>\<open>undefined\<close>\<close>
  | Rejected string  \<comment> \<open>a failure raised inside a collaborator\<close>

text \<open>
  An optional string is \<^verbatim>\<open>string | undefined\<close>. JavaScript's \<^verbatim>\<open>!v\<close> holds of \<^verbatim>\<open>undefined\<close>
  and of the empty string; \<open>truthy_value\<close> returns the string exactly when \<^verbatim>\<open>!v\<close> is false.
\<close>

definition truthy_value :: "string option \<Rightarrow> string option" where
  "truthy_value v = (case v of None \<Rightarrow> None | Some s \<Rightarrow> if s = [] then None else Some s)"

text \<open>The same for \<^verbatim>\<open>number | undefined\<close>: \<^verbatim>\<open>!n\<close> holds of \<^verbatim>\<open>undefined\<close> and of 0.\<close>

definition truthy_number :: "int option \<Rightarrow> int option" where
  "truthy_number v = (case v of None \<Rightarrow> None | Some n \<Rightarrow> if n = 0 then None else Some n)"

text \<open>\<^verbatim>\<open>a || b\<close> on an optional string \<open>a\<close> and a string \<open>b\<close>.\<close>

definition or_else :: "string option \<Rightarrow> string \<Rightarrow> string" where
  "or_else a b = (case truthy_value a of None \<Rightarrow> b | Some s \<Rightarrow> s)"

text \<open>\<^verbatim>\<open>data?.field\<close>: optional chaining on a record that may itself be \<^verbatim>\<open>undefined\<close>.\<close>

definition opt_chain :: "'a option \<Rightarrow> ('a \<Rightarrow> 'b option) \<Rightarrow> 'b option" where
  "opt_chain d f = (case d of None \<Rightarrow> None | Some x \<Rightarrow> f x)"

subsection \<open>Data model\<close>

text \<open>The members of the enum \<^verbatim>\<open>FrontMatterAttributes\<close> that this module reads.\<close>

datatype FrontMatterAttributes = Attr_eip | Attr_status | Attr_author | Attr_category | Attr_type

text \<open>The result of \<^verbatim>\<open>frontmatter(text)\<close>: the attribute mapping and the remaining body.\<close>

record FrontMatterResult =
  attributes :: "FrontMatterAttributes \<Rightarrow> string option"
  body :: string

text \<open>\<^verbatim>\<open>ContentFile\<close>: the record the content API returns; the module trusts none of its fields.\<close>

record ContentFile =
  data_content :: "string option"
  data_encoding :: "string option"
  data_path :: "string option"
  data_name :: "string option"

record ParsedContent =
  file_path :: string
  file_name :: string
  file_content :: FrontMatterResult

record File =
  filename :: string

text \<open>The part of the pull request that is read: \<^verbatim>\<open>pr.head.sha\<close> and \<^verbatim>\<open>pr.base.sha\<close>.\<close>

record PullRequest =
  head_sha :: string
  base_sha :: string

text \<open>The argument and the result of \<^verbatim>\<open>assertCategory\<close>.\<close>

record classify_args =
  maybeCategory :: "string option"
  fileName :: string
  maybeType :: "string option"

record ('c, 't) classification =
  cls_category :: 'c
  cls_type :: 't

record ('c, 't) FormattedFile =
  eipNum :: "string option"
  status :: string
  authors :: "string set option"
  name :: string
  filenameEipNum :: int
  category :: 'c
  type :: 't

record ('c, 't) FileDiff =
  head :: "('c, 't) FormattedFile"
  base :: "('c, 't) FormattedFile"

text \<open>The response of \<^verbatim>\<open>Github.search.users\<close>, as far as it is read.\<close>

record user =
  login :: string

record search_results =
  total_count :: int
  items :: "user list"

subsection \<open>Collaborators\<close>

text \<open>
  \<^item> \<open>requirePr\<close>: \<^verbatim>\<open>requirePr()\<close>.
  \<^item> \<open>getContent f sha\<close>: \<^verbatim>\<open>Github.repos.getContent({owner, repo, path: f, ref: sha})\<close>
    followed by \<^verbatim>\<open>res.data\<close>; owner and repository come from the ambient context.
  \<^item> \<open>requireEncoding enc f\<close>: \<^verbatim>\<open>requireEncoding(encoding, filename)\<close>.
  \<^item> \<open>buffer_decode c enc\<close>: \<^verbatim>\<open>Buffer.from(c, enc).toString()\<close>.
  \<^item> \<open>frontmatter\<close>: the front-matter parser.
  \<^item> \<open>requireFilenameEipNum\<close>: the number extracted from a file name, or \<^verbatim>\<open>undefined\<close>.
  \<^item> \<open>assertCategory\<close>: the classification rule.
  \<^item> \<open>search_users q\<close>: \<^verbatim>\<open>Github.search.users({q})\<close>, the \<^verbatim>\<open>data\<close> of the response.
  \<^item> \<open>matchAll s\<close>: \<^verbatim>\<open>matchAll(s, AUTHOR_RE, 1)\<close>.
  \<^item> \<open>toLowerCase\<close>: \<^verbatim>\<open>String.prototype.toLowerCase\<close>.
\<close>

record ('c, 't) env =
  requirePr :: "error + PullRequest"
  getContent :: "string \<Rightarrow> string \<Rightarrow> error + ContentFile option"
  requireEncoding :: "string option \<Rightarrow> string \<Rightarrow> error + unit"
  buffer_decode :: "string \<Rightarrow> string option \<Rightarrow> error + string"
  frontmatter :: "string \<Rightarrow> error + FrontMatterResult"
  requireFilenameEipNum :: "string \<Rightarrow> error + int option"
  assertCategory :: "classify_args \<Rightarrow> error + ('c, 't) classification"
  search_users :: "string \<Rightarrow> error + search_results"
  matchAll :: "string \<Rightarrow> string list"
  toLowerCase :: "string \<Rightarrow> string"

subsection \<open>Observable effects\<close>

text \<open>
  What the module does besides returning: the queries it sends to the user search, the
  warnings it prints with \<^verbatim>\<open>console.warn\<close>, and its calls of the classification rule.
  Each is a log, oldest entry first. The user searches of one author list are issued
  together, in token order; the model lets them settle in that order too, so the warnings
  of one list are logged in token order.
\<close>

record world =
  searches :: "string list"
  warnings :: "string list"
  classifications :: "classify_args list"

subsection \<open>getAuthors\<close>

definition no_user_warning :: "string \<Rightarrow> string" where
  "no_user_warning email = ''No github user found, using email instead: '' @ email"

definition findUserByEmail ::
  "('c, 't) env \<Rightarrow> world \<Rightarrow> string \<Rightarrow> (error + string option) \<times> world" where
  "findUserByEmail E w email =
     (let w1 = w\<lparr>searches := searches w @ [email]\<rparr> in
      case search_users E email of
        Inl e \<Rightarrow> (Inl e, w1)
      | Inr results \<Rightarrow>
          if total_count results > 0 \<and> items results \<noteq> []
          then (Inr (Some (''@'' @ login (hd (items results)))), w1)
          else (Inr None, w1\<lparr>warnings := warnings w1 @ [no_user_warning email]\<rparr>))"

text \<open>\<^verbatim>\<open>author[0] === "@"\<close>; \<^verbatim>\<open>author[0]\<close> of the empty string is \<^verbatim>\<open>undefined\<close>.\<close>

definition is_handle :: "string \<Rightarrow> bool" where
  "is_handle author = (case author of [] \<Rightarrow> False | c # _ \<Rightarrow> c = CHR ''@'')"

definition resolveAuthor ::
  "('c, 't) env \<Rightarrow> world \<Rightarrow> string \<Rightarrow> (error + string) \<times> world" where
  "resolveAuthor E w author =
     (if is_handle author then (Inr (toLowerCase E author), w)
      else
        (case findUserByEmail E w author of
           (Inl e, w1) \<Rightarrow> (Inl e, w1)
         | (Inr queriedUser, w1) \<Rightarrow> (Inr (toLowerCase E (or_else queriedUser author)), w1)))"

text \<open>
  \<^verbatim>\<open>authors.map(resolveAuthor)\<close>: every token is started, whatever becomes of the others,
  and each promise carries its own outcome.
\<close>

fun resolveAll ::
  "('c, 't) env \<Rightarrow> world \<Rightarrow> string list \<Rightarrow> (error + string) list \<times> world" where
  "resolveAll E w [] = ([], w)"
| "resolveAll E w (a # as) =
     (case resolveAuthor E w a of
        (r, w1) \<Rightarrow> (case resolveAll E w1 as of (rs, w2) \<Rightarrow> (r # rs, w2)))"

text \<open>
  \<^verbatim>\<open>Promise.all\<close>: the values in input order, or a rejection. Which rejection is
  reported, when several promises reject, depends on which settles first; the model lets
  the promises settle in input order and so reports the first in the list. Whether there
  is a rejection does not depend on that order.
\<close>

fun promise_all :: "(error + 'a) list \<Rightarrow> error + 'a list" where
  "promise_all [] = Inr []"
| "promise_all (Inl e # rs) = Inl e"
| "promise_all (Inr v # rs) = (case promise_all rs of Inl e \<Rightarrow> Inl e | Inr vs \<Rightarrow> Inr (v # vs))"

definition getAuthors ::
  "('c, 't) env \<Rightarrow> world \<Rightarrow> string option \<Rightarrow> (error + string set option) \<times> world" where
  "getAuthors E w rawAuthorList =
     (case truthy_value rawAuthorList of
        None \<Rightarrow> (Inr None, w)
      | Some raw \<Rightarrow>
          (case resolveAll E w (matchAll E raw) of
             (rs, w1) \<Rightarrow>
               (case promise_all rs of
                  Inl e \<Rightarrow> (Inl e, w1)
                | Inr resolved \<Rightarrow> (Inr (Some (set resolved)), w1))))"

subsection \<open>getParsedContent\<close>

definition no_content_message :: "string \<Rightarrow> string \<Rightarrow> string" where
  "no_content_message f sha =
     ''requested file '' @ f @ '' at ref sha '' @ sha @ '' contains no content''"

definition no_path_message :: "string \<Rightarrow> string \<Rightarrow> string" where
  "no_path_message f sha =
     ''requested file '' @ f @ '' at ref sha '' @ sha @ '' has no path''"

definition no_name_message :: "string \<Rightarrow> string \<Rightarrow> string" where
  "no_name_message f sha =
     ''requested file '' @ f @ '' at ref sha '' @ sha @ '' has no name''"

text \<open>The inner function \<^verbatim>\<open>decodeData\<close>, applied once the content is known to be there.\<close>

definition decodeData ::
  "('c, 't) env \<Rightarrow> string \<Rightarrow> string \<Rightarrow> string option \<Rightarrow> error + string" where
  "decodeData E f c encoding =
     (case requireEncoding E encoding f of
        Inl e \<Rightarrow> Inl e
      | Inr _ \<Rightarrow> buffer_decode E c encoding)"

definition getParsedContent ::
  "('c, 't) env \<Rightarrow> string \<Rightarrow> string \<Rightarrow> error + ParsedContent" where
  "getParsedContent E f sha =
     (case getContent E f sha of
        Inl e \<Rightarrow> Inl e
      | Inr data \<Rightarrow>
          (case truthy_value (opt_chain data data_content) of
             None \<Rightarrow> Inl (Thrown (no_content_message f sha))
           | Some c \<Rightarrow>
               (case truthy_value (opt_chain data data_path) of
                  None \<Rightarrow> Inl (Thrown (no_path_message f sha))
                | Some p \<Rightarrow>
                    (case truthy_value (opt_chain data data_name) of
                       None \<Rightarrow> Inl (Thrown (no_name_message f sha))
                     | Some n \<Rightarrow>
                         (case decodeData E f c (opt_chain data data_encoding) of
                            Inl e \<Rightarrow> Inl e
                          | Inr text \<Rightarrow>
                              (case frontmatter E text of
                                 Inl e \<Rightarrow> Inl e
                               | Inr fm \<Rightarrow>
                                   Inr \<lparr>file_path = p, file_name = n, file_content = fm\<rparr>))))))"

subsection \<open>formatFile\<close>

definition extraction_message :: "string \<Rightarrow> string" where
  "extraction_message p =
     ''Failed to extract eip number from file '' @ [CHR 0x22] @ p @ [CHR 0x22]"

text \<open>One call of \<^verbatim>\<open>assertCategory\<close>, logged.\<close>

definition call_assertCategory ::
  "('c, 't) env \<Rightarrow> world \<Rightarrow> classify_args \<Rightarrow> (error + ('c, 't) classification) \<times> world" where
  "call_assertCategory E w a =
     (assertCategory E a, w\<lparr>classifications := classifications w @ [a]\<rparr>)"

text \<open>
  The object literal is evaluated field by field, in the order written: the status is
  lower-cased (a \<^verbatim>\<open>TypeError\<close> when the attribute is \<^verbatim>\<open>undefined\<close>) before the authors
  are resolved, and the classification rule is called twice after that.
\<close>

definition formatFile ::
  "('c, 't) env \<Rightarrow> world \<Rightarrow> ParsedContent \<Rightarrow> (error + ('c, 't) FormattedFile) \<times> world" where
  "formatFile E w file =
     (case requireFilenameEipNum E (file_name file) of
        Inl e \<Rightarrow> (Inl e, w)
      | Inr extracted \<Rightarrow>
          (case truthy_number extracted of
             None \<Rightarrow> (Inl (Thrown (extraction_message (file_path file))), w)
           | Some num \<Rightarrow>
               (case attributes (file_content file) Attr_status of
                  None \<Rightarrow> (Inl TypeError, w)
                | Some st \<Rightarrow>
                    (case getAuthors E w (attributes (file_content file) Attr_author) of
                       (Inl e, w1) \<Rightarrow> (Inl e, w1)
                     | (Inr as, w1) \<Rightarrow>
                         (case call_assertCategory E w1
                                 \<lparr>maybeCategory = attributes (file_content file) Attr_category,
                                  fileName = file_name file,
                                  maybeType = attributes (file_content file) Attr_type\<rparr> of
                            (Inl e, w2) \<Rightarrow> (Inl e, w2)
                          | (Inr c1, w2) \<Rightarrow>
                              (case call_assertCategory E w2
                                      \<lparr>maybeCategory = attributes (file_content file) Attr_category,
                                       fileName = file_name file,
                                       maybeType = attributes (file_content file) Attr_type\<rparr> of
                                 (Inl e, w3) \<Rightarrow> (Inl e, w3)
                               | (Inr c2, w3) \<Rightarrow>
                                   (Inr \<lparr>eipNum = attributes (file_content file) Attr_eip,
                                         status = toLowerCase E st,
                                         authors = as,
                                         name = file_name file,
                                         filenameEipNum = num,
                                         category = cls_category c1,
                                         type = cls_type c2\<rparr>, w3)))))))"

subsection \<open>getFileDiff\<close>

text \<open>\<^verbatim>\<open>getParsedContent(filename, pr.base.sha).catch(() => head)\<close>\<close>

definition catch_with :: "error + 'a \<Rightarrow> 'a \<Rightarrow> 'a" where
  "catch_with r v = (case r of Inl _ \<Rightarrow> v | Inr x \<Rightarrow> x)"

text \<open>
  The two records are formatted one after the other, and each formatting sends its own
  user searches to the remote service. The service need not answer the second run as it
  answered the first (it may have reached its rate limit, or a user may have changed):
  \<open>search_users E\<close> is how it answers while the head is formatted, and the parameter
  \<open>search_again\<close> how it answers while the base is formatted. All other collaborators of
  \<open>formatFile\<close> are local functions, the same in both runs.
\<close>

definition getFileDiff ::
  "('c, 't) env \<Rightarrow> (string \<Rightarrow> error + search_results) \<Rightarrow> world \<Rightarrow> File
     \<Rightarrow> (error + ('c, 't) FileDiff) \<times> world" where
  "getFileDiff E search_again w file =
     (case requirePr E of
        Inl e \<Rightarrow> (Inl e, w)
      | Inr pr \<Rightarrow>
          (case getParsedContent E (filename file) (head_sha pr) of
             Inl e \<Rightarrow> (Inl e, w)
           | Inr h \<Rightarrow>
               (let b = catch_with (getParsedContent E (filename file) (base_sha pr)) h in
                case formatFile E w h of
                  (Inl e, w1) \<Rightarrow> (Inl e, w1)
                | (Inr fh, w1) \<Rightarrow>
                    (case formatFile (E\<lparr>search_users := search_again\<rparr>) w1 b of
                       (Inl e, w2) \<Rightarrow> (Inl e, w2)
                     | (Inr fb, w2) \<Rightarrow> (Inr \<lparr>head = fh, base = fb\<rparr>, w2)))))"

subsection \<open>Vocabulary of the properties\<close>

text \<open>
  The three inputs of the classification rule: the category attribute, the file name and
  the type attribute of a parsed file.
\<close>

definition classify_input :: "ParsedContent \<Rightarrow> classify_args" where
  "classify_input file =
     \<lparr>maybeCategory = attributes (file_content file) Attr_category,
      fileName = file_name file,
      maybeType = attributes (file_content file) Attr_type\<rparr>"

subsection \<open>An example repository\<close>

text \<open>
  Concrete collaborators, on which the functions can be run. The pull request has head
  \<open>headsha\<close> and base \<open>basesha\<close>; no file exists at the base. At the head there are a
  proposal \<open>EIPS/eip-1.md\<close>, a file \<open>EIPS/draft.md\<close> whose name carries no number, two
  records that lack a field, and the directory \<open>EIPS\<close>, for which the content API returns
  no file record. Base64 is the one accepted encoding, decoding is the identity, every
  document has the same header, and the classification rule hands its two hints back. The
  user search knows Carol only.
\<close>

definition ascii_lower :: "char \<Rightarrow> char" where
  "ascii_lower c =
     (case map_of (zip ''ABCDEFGHIJKLMNOPQRSTUVWXYZ'' ''abcdefghijklmnopqrstuvwxyz'') c of
        Some d \<Rightarrow> d
      | None \<Rightarrow> c)"

definition example_pr :: PullRequest where
  "example_pr = \<lparr>head_sha = ''headsha'', base_sha = ''basesha''\<rparr>"

definition example_attributes :: "FrontMatterAttributes \<Rightarrow> string option" where
  "example_attributes a =
     (case a of
        Attr_eip \<Rightarrow> Some ''1''
      | Attr_status \<Rightarrow> Some ''Draft''
      | Attr_author \<Rightarrow> Some ''Alice (@alice), Bob (@Bob)''
      | Attr_category \<Rightarrow> Some ''Core''
      | Attr_type \<Rightarrow> Some ''Standards Track'')"

definition example_getContent :: "string \<Rightarrow> string \<Rightarrow> error + ContentFile option" where
  "example_getContent f sha =
     (if sha \<noteq> ''headsha'' then Inl (Rejected ''Not Found'')
      else if f = ''EIPS/eip-1.md'' then
        Inr (Some \<lparr>data_content = Some ''doc'', data_encoding = Some ''base64'',
                   data_path = Some ''EIPS/eip-1.md'', data_name = Some ''eip-1.md''\<rparr>)
      else if f = ''EIPS/draft.md'' then
        Inr (Some \<lparr>data_content = Some ''doc'', data_encoding = Some ''base64'',
                   data_path = Some ''EIPS/draft.md'', data_name = Some ''draft.md''\<rparr>)
      else if f = ''EIPS/eip-3.md'' then
        Inr (Some \<lparr>data_content = Some ''doc'', data_encoding = Some ''utf-16'',
                   data_path = None, data_name = Some ''eip-3.md''\<rparr>)
      else if f = ''EIPS/eip-4.md'' then
        Inr (Some \<lparr>data_content = Some ''doc'', data_encoding = Some ''base64'',
                   data_path = Some ''EIPS/eip-4.md'', data_name = None\<rparr>)
      else if f = ''EIPS'' then Inr None
      else Inl (Rejected ''Not Found''))"

definition example_search :: "string \<Rightarrow> error + search_results" where
  "example_search q =
     (if q = ''carol@example.com''
      then Inr \<lparr>total_count = 1, items = [\<lparr>login = ''Carol''\<rparr>]\<rparr>
      else Inr \<lparr>total_count = 0, items = []\<rparr>)"

definition example_matchAll :: "string \<Rightarrow> string list" where
  "example_matchAll s =
     (if s = ''Alice (@alice), Bob (@Bob)'' then [''@alice'', ''@Bob'']
      else if s = ''Carol <carol@example.com>'' then [''carol@example.com'']
      else if s = ''Dave <Dave@example.com>'' then [''Dave@example.com'']
      else [])"

definition example_env :: "(string option, string option) env" where
  "example_env =
     \<lparr>requirePr = Inr example_pr,
      getContent = example_getContent,
      requireEncoding =
        (\<lambda>enc f. if enc = Some ''base64'' then Inr () else Inl (Rejected ''unknown encoding'')),
      buffer_decode = (\<lambda>c enc. Inr c),
      frontmatter = (\<lambda>text. Inr \<lparr>attributes = example_attributes, body = text\<rparr>),
      requireFilenameEipNum =
        (\<lambda>n. Inr (if n = ''eip-1.md'' then Some 1 else if n = ''eip-0.md'' then Some 0 else None)),
      assertCategory = (\<lambda>a. Inr \<lparr>cls_category = maybeCategory a, cls_type = maybeType a\<rparr>),
      search_users = example_search,
      matchAll = example_matchAll,
      toLowerCase = map ascii_lower\<rparr>"

text \<open>The world before anything has happened.\<close>

definition quiet_world :: world where
  "quiet_world = \<lparr>searches = [], warnings = [], classifications = []\<rparr>"

text \<open>What fetching and formatting \<open>EIPS/eip-1.md\<close> at the head give.\<close>

definition example_head :: ParsedContent where
  "example_head =
     \<lparr>file_path = ''EIPS/eip-1.md'', file_name = ''eip-1.md'',
      file_content = \<lparr>attributes = example_attributes, body = ''doc''\<rparr>\<rparr>"

definition example_formatted :: "(string option, string option) FormattedFile" where
  "example_formatted =
     \<lparr>eipNum = Some ''1'', status = ''draft'', authors = Some {''@alice'', ''@bob''},
      name = ''eip-1.md'', filenameEipNum = 1,
      category = Some ''Core'', type = Some ''Standards Track''\<rparr>"

text \<open>
  A second repository, the same but for the author of its documents, who is given by
  email address; and two ways the search service may answer later on: it has reached its
  rate limit, or it finds nobody any more.
\<close>

definition carol_env :: "(string option, string option) env" where
  "carol_env =
     example_env\<lparr>frontmatter :=
       (\<lambda>text. Inr \<lparr>attributes = example_attributes(Attr_author \<mapsto> ''Carol <carol@example.com>''),
                     body = text\<rparr>)\<rparr>"

definition limited_search :: "string \<Rightarrow> error + search_results" where
  "limited_search q = Inl (Rejected ''rate limited'')"

definition nobody_search :: "string \<Rightarrow> error + search_results" where
  "nobody_search q = Inr \<lparr>total_count = 0, items = []\<rparr>"

definition carol_formatted :: "string set \<Rightarrow> (string option, string option) FormattedFile" where
  "carol_formatted as =
     \<lparr>eipNum = Some ''1'', status = ''draft'', authors = Some as,
      name = ''eip-1.md'', filenameEipNum = 1,
      category = Some ''Core'', type = Some ''Standards Track''\<rparr>"

lemmas example_defs =
  example_env_def example_pr_def example_attributes_def example_getContent_def
  example_search_def example_matchAll_def quiet_world_def example_head_def
  example_formatted_def ascii_lower_def

lemmas model_defs =
  getFileDiff_def catch_with_def formatFile_def call_assertCategory_def
  getParsedContent_def decodeData_def getAuthors_def resolveAuthor_def findUserByEmail_def
  is_handle_def truthy_value_def truthy_number_def or_else_def opt_chain_def
  no_content_message_def no_path_message_def no_name_message_def extraction_message_def
  no_user_warning_def classify_input_def

section \<open>Results do not depend on the logs\<close>

text \<open>
  The logs record what happened; no function reads them. So the value a function returns
  is the same from every world, and the classification log is touched by \<open>formatFile\<close>
  alone.
\<close>

lemma findUserByEmail_result: "fst (findUserByEmail E w a) = fst (findUserByEmail E w' a)"
  by (simp add: findUserByEmail_def Let_def split: sum.splits)

lemma findUserByEmail_classifications:
  "classifications (snd (findUserByEmail E w a)) = classifications w"
  by (simp add: findUserByEmail_def Let_def split: sum.splits)

lemma resolveAuthor_result: "fst (resolveAuthor E w a) = fst (resolveAuthor E w' a)"
  using findUserByEmail_result [of E w a w']
  by (auto simp: resolveAuthor_def split: prod.splits sum.splits)

lemma resolveAuthor_classifications:
  "classifications (snd (resolveAuthor E w a)) = classifications w"
  using findUserByEmail_classifications [of E w a]
  by (auto simp: resolveAuthor_def split: prod.splits sum.splits)

lemma resolveAll_result: "fst (resolveAll E w ts) = fst (resolveAll E w' ts)"
proof (induction ts arbitrary: w w')
  case Nil
  show ?case by simp
next
  case (Cons a ts)
  from resolveAuthor_result [of E w a w'] Cons.IH
  show ?case
    by (simp split: prod.splits) (metis fst_conv)
qed

lemma resolveAll_classifications:
  "classifications (snd (resolveAll E w ts)) = classifications w"
proof (induction ts arbitrary: w)
  case Nil
  show ?case by simp
next
  case (Cons a ts)
  from resolveAuthor_classifications [of E w a] Cons.IH
  show ?case
    by (simp split: prod.splits) (metis snd_conv)
qed

lemma getAuthors_result: "fst (getAuthors E w raw) = fst (getAuthors E w' raw)"
  using resolveAll_result [of E w _ w']
  by (auto simp: getAuthors_def split: option.splits prod.splits sum.splits)
     (metis fst_conv sum.inject sum.distinct)+

lemma getAuthors_classifications:
  "classifications (snd (getAuthors E w raw)) = classifications w"
  using resolveAll_classifications [of E w]
  by (auto simp: getAuthors_def split: option.splits prod.splits sum.splits)
     (metis snd_conv)+

lemma formatFile_result: "fst (formatFile E w file) = fst (formatFile E w' file)"
proof -
  have "fst (getAuthors E w (attributes (file_content file) Attr_author))
      = fst (getAuthors E w' (attributes (file_content file) Attr_author))"
    by (rule getAuthors_result)
  then show ?thesis
    by (auto simp: formatFile_def call_assertCategory_def
             split: sum.splits option.splits prod.splits)
qed

lemma formatFile_success_again:
  "formatFile E w file = (Inr f, w1) \<Longrightarrow> \<exists>w2. formatFile E w' file = (Inr f, w2)"
  using formatFile_result [of E w "file" w'] by (cases "formatFile E w' file") simp

section \<open>Handles, and the checks of the content fetcher\<close>

lemma resolveAll_handles:
  "list_all is_handle ts \<Longrightarrow> resolveAll E w ts = (map (\<lambda>t. Inr (toLowerCase E t)) ts, w)"
  by (induction ts) (simp_all add: resolveAuthor_def)

lemma promise_all_values: "promise_all (map (\<lambda>t. Inr (g t)) ts) = Inr (map g ts)"
  by (induction ts) simp_all

text \<open>When every search that is made answers, every token resolves.\<close>

lemma resolveAuthor_succeeds:
  assumes "is_handle t \<or> (\<exists>r. search_users E t = Inr r)"
  shows "\<exists>v. fst (resolveAuthor E w t) = Inr v"
  using assms
  by (auto simp: resolveAuthor_def findUserByEmail_def Let_def split: prod.splits sum.splits)

lemma resolveAll_succeeds:
  assumes "\<forall>t \<in> set ts. is_handle t \<or> (\<exists>r. search_users E t = Inr r)"
  shows "\<exists>vs. promise_all (fst (resolveAll E w ts)) = Inr vs"
  using assms
proof (induction ts arbitrary: w)
  case Nil
  show ?case by simp
next
  case (Cons a ts)
  then obtain v where v: "fst (resolveAuthor E w a) = Inr v"
    using resolveAuthor_succeeds [of a E w] by auto
  obtain w1 where w1: "resolveAuthor E w a = (Inr v, w1)"
    using v by (cases "resolveAuthor E w a") simp
  from Cons obtain vs where "promise_all (fst (resolveAll E w1 ts)) = Inr vs"
    by fastforce
  with w1 show ?case
    by (cases "resolveAll E w1 ts") auto
qed

text \<open>The content fetcher as one chain of checks, the inner function unfolded.\<close>

lemma getParsedContent_checks:
  assumes "getContent E f sha = Inr data"
  shows "getParsedContent E f sha =
     (case truthy_value (opt_chain data data_content) of
        None \<Rightarrow> Inl (Thrown (no_content_message f sha))
      | Some c \<Rightarrow>
        (case truthy_value (opt_chain data data_path) of
           None \<Rightarrow> Inl (Thrown (no_path_message f sha))
         | Some p \<Rightarrow>
           (case truthy_value (opt_chain data data_name) of
              None \<Rightarrow> Inl (Thrown (no_name_message f sha))
            | Some n \<Rightarrow>
              (case requireEncoding E (opt_chain data data_encoding) f of
                 Inl e \<Rightarrow> Inl e
               | Inr u \<Rightarrow>
                 (case buffer_decode E c (opt_chain data data_encoding) of
                    Inl e \<Rightarrow> Inl e
                  | Inr text \<Rightarrow>
                    (case frontmatter E text of
                       Inl e \<Rightarrow> Inl e
                     | Inr fm \<Rightarrow> Inr \<lparr>file_path = p, file_name = n, file_content = fm\<rparr>))))))"
  using assms
  by (simp add: getParsedContent_def decodeData_def split: option.splits sum.splits)

lemma messages_distinct:
  "no_content_message f sha \<noteq> no_path_message f sha"
  "no_content_message f sha \<noteq> no_name_message f sha"
  "no_path_message f sha \<noteq> no_name_message f sha"
  by (simp_all add: no_content_message_def no_path_message_def no_name_message_def)

section \<open>The example repository, run\<close>

lemma example_head_fetch:
  "getParsedContent example_env ''EIPS/eip-1.md'' ''headsha'' = Inr example_head"
  by (simp add: example_defs model_defs)

lemma example_format:
  "fst (formatFile example_env quiet_world example_head) = Inr example_formatted"
  by (simp add: example_defs model_defs)

section \<open>The dual-revision resolver\<close>

text \<open>
  When the base fetch fails, the head content is formatted twice. A second formatting
  whose searches are answered like those of the first gives what the first gave.
\<close>

lemma formatFile_same_search:
  "fst (formatFile (E\<lparr>search_users := search_users E\<rparr>) w' file) = fst (formatFile E w file)"
  using formatFile_result [of E w' "file" w] by simp

text \<open>
  C1, as the code has it. The claim reads: whenever the head fetch succeeds and the base
  fetch fails, \<open>getFileDiff\<close> returns a \<open>FileDiff\<close> whose base equals its head. The error of
  the base fetch is indeed never propagated, and the head content takes the place of the
  base. But the result is not copied: the head content is formatted a second time, and
  either formatting can fail. What holds, when the pull request is known, the head fetch
  succeeds with \<open>h\<close> and the base fetch fails for any reason: the outcome of \<open>getFileDiff\<close>
  is decided by the two formattings of \<open>h\<close>. If the first fails, its failure is the failure
  of \<open>getFileDiff\<close>. If it succeeds, and the user search answers the second formatting as it
  answered the first, the result is a \<open>FileDiff\<close> whose base equals its head.
\<close>

theorem getFileDiff_base_fallback:
  assumes "requirePr E = Inr pr"
    and "getParsedContent E (filename file) (head_sha pr) = Inr h"
    and "getParsedContent E (filename file) (base_sha pr) = Inl e"
  shows "fst (getFileDiff E search_again w file) =
           (case fst (formatFile E w h) of
              Inl x \<Rightarrow> Inl x
            | Inr fh \<Rightarrow>
                (case fst (formatFile (E\<lparr>search_users := search_again\<rparr>) w h) of
                   Inl x \<Rightarrow> Inl x
                 | Inr fb \<Rightarrow> Inr \<lparr>head = fh, base = fb\<rparr>))
       \<and> (search_again = search_users E \<longrightarrow>
            fst (getFileDiff E search_again w file) =
              (case fst (formatFile E w h) of
                 Inl x \<Rightarrow> Inl x
               | Inr f \<Rightarrow> Inr \<lparr>head = f, base = f\<rparr>))"
proof -
  let ?E2 = "E\<lparr>search_users := search_again\<rparr>"
  have first: "fst (getFileDiff E search_again w file) =
           (case fst (formatFile E w h) of
              Inl x \<Rightarrow> Inl x
            | Inr fh \<Rightarrow>
                (case fst (formatFile ?E2 w h) of
                   Inl x \<Rightarrow> Inl x
                 | Inr fb \<Rightarrow> Inr \<lparr>head = fh, base = fb\<rparr>))"
  proof (cases "formatFile E w h")
    case (Pair r w1)
    have again: "fst (formatFile ?E2 w1 h) = fst (formatFile ?E2 w h)"
      by (rule formatFile_result)
    show ?thesis
    proof (cases r)
      case (Inl x)
      with Pair assms show ?thesis
        by (simp add: getFileDiff_def catch_with_def)
    next
      case (Inr fh)
      with Pair assms again show ?thesis
        by (cases "formatFile ?E2 w1 h")
           (auto simp: getFileDiff_def catch_with_def split: sum.splits)
    qed
  qed
  have "fst (formatFile (E\<lparr>search_users := search_users E\<rparr>) w h) = fst (formatFile E w h)"
    by (rule formatFile_same_search)
  with first show ?thesis
    by (auto split: sum.splits)
qed

text \<open>
  In the example, \<open>EIPS/eip-1.md\<close> is new and the search service does not change: head
  and base of the result are equal.
\<close>

theorem getFileDiff_base_fallback_witness:
  "requirePr example_env = Inr example_pr
   \<and> getParsedContent example_env ''EIPS/eip-1.md'' ''headsha'' = Inr example_head
   \<and> getParsedContent example_env ''EIPS/eip-1.md'' ''basesha'' = Inl (Rejected ''Not Found'')
   \<and> fst (getFileDiff example_env (search_users example_env) quiet_world
            \<lparr>filename = ''EIPS/eip-1.md''\<rparr>)
       = Inr \<lparr>head = example_formatted, base = example_formatted\<rparr>"
proof -
  have pr: "requirePr example_env = Inr example_pr"
    by (simp add: example_env_def)
  have h: "getParsedContent example_env (filename \<lparr>filename = ''EIPS/eip-1.md''\<rparr>)
             (head_sha example_pr) = Inr example_head"
    using example_head_fetch by (simp add: example_pr_def)
  have b: "getParsedContent example_env (filename \<lparr>filename = ''EIPS/eip-1.md''\<rparr>)
             (base_sha example_pr) = Inl (Rejected ''Not Found'')"
    by (simp add: example_defs model_defs)
  from getFileDiff_base_fallback [OF pr h b, of "search_users example_env" quiet_world]
       pr h b example_format
  show ?thesis by (simp add: example_pr_def)
qed

text \<open>
  \<open>EIPS/draft.md\<close> is new as well: its head fetch succeeds and its base fetch fails. Its
  name carries no number, so no \<open>FileDiff\<close> is returned, though the search service does
  not change.
\<close>

theorem getFileDiff_formatting_failure_counterexample:
  \<open>getParsedContent example_env ''EIPS/draft.md'' ''headsha''
     = Inr \<lparr>file_path = ''EIPS/draft.md'', file_name = ''draft.md'',
            file_content = \<lparr>attributes = example_attributes, body = ''doc''\<rparr>\<rparr>
   \<and> getParsedContent example_env ''EIPS/draft.md'' ''basesha'' = Inl (Rejected ''Not Found'')
   \<and> fst (getFileDiff example_env example_search quiet_world \<lparr>filename = ''EIPS/draft.md''\<rparr>)
       = Inl (Thrown ''Failed to extract eip number from file "EIPS/draft.md"'')\<close>
  by (simp add: example_defs model_defs)

text \<open>
  Why the answers of the search matter. In the second repository the author of the new
  file \<open>EIPS/eip-1.md\<close> is Carol, by email address. If the service has reached its rate
  limit when the head content is formatted the second time, \<open>getFileDiff\<close> fails, although
  the head was formatted; if it finds nobody then, base and head differ in their authors.
\<close>

lemma getFileDiff_search_changes:
  "fst (getFileDiff carol_env limited_search quiet_world \<lparr>filename = ''EIPS/eip-1.md''\<rparr>)
     = Inl (Rejected ''rate limited'')"
  "fst (getFileDiff carol_env nobody_search quiet_world \<lparr>filename = ''EIPS/eip-1.md''\<rparr>)
     = Inr \<lparr>head = carol_formatted {''@carol''},
            base = carol_formatted {''carol@example.com''}\<rparr>"
  "carol_formatted {''@carol''} \<noteq> carol_formatted {''carol@example.com''}"
  by (simp_all add: carol_env_def limited_search_def nobody_search_def carol_formatted_def
        example_defs model_defs)

section \<open>The identity resolver\<close>

text \<open>
  C2, as the code has it. The claim reads: \<open>getAuthors\<close> returns \<open>undefined\<close> exactly when
  the raw author list is absent; a present list, the empty string included, gives a set.
  The guard is \<^verbatim>\<open>if (!rawAuthorList) return;\<close>, and the empty string is falsy. So
  \<open>getAuthors\<close> returns \<open>undefined\<close> exactly when the raw author list is absent or the
  empty string. A non-empty author list gives a set, provided that every user search made
  for it answers; and when no token is extracted from it, that set is empty, with nothing
  searched and nothing printed.
\<close>

theorem getAuthors_undefined:
  "(fst (getAuthors E w raw) = Inr None) = (raw = None \<or> raw = Some [])
   \<and> (raw = Some s \<and> s \<noteq> []
        \<and> (\<forall>t \<in> set (matchAll E s). is_handle t \<or> (\<exists>r. search_users E t = Inr r)) \<longrightarrow>
        (\<exists>A. fst (getAuthors E w raw) = Inr (Some A)))
   \<and> (raw = Some s \<and> s \<noteq> [] \<and> matchAll E s = [] \<longrightarrow>
        getAuthors E w raw = (Inr (Some {}), w))"
proof (intro conjI impI)
  show "(fst (getAuthors E w raw) = Inr None) = (raw = None \<or> raw = Some [])"
    by (auto simp: getAuthors_def truthy_value_def
        split: option.splits prod.splits sum.splits if_splits)
next
  assume a: "raw = Some s \<and> s \<noteq> []
     \<and> (\<forall>t \<in> set (matchAll E s). is_handle t \<or> (\<exists>r. search_users E t = Inr r))"
  then obtain vs where "promise_all (fst (resolveAll E w (matchAll E s))) = Inr vs"
    using resolveAll_succeeds [of "matchAll E s" E w] by auto
  with a show "\<exists>A. fst (getAuthors E w raw) = Inr (Some A)"
    by (cases "resolveAll E w (matchAll E s)") (auto simp: getAuthors_def truthy_value_def)
next
  assume "raw = Some s \<and> s \<noteq> [] \<and> matchAll E s = []"
  then show "getAuthors E w raw = (Inr (Some {}), w)"
    by (simp add: getAuthors_def truthy_value_def)
qed

text \<open>
  In the example: no author list and the empty author list give \<open>undefined\<close>; Carol's
  address gives a set; the list \<open>Erin\<close>, which holds no token, gives the empty set.
\<close>

theorem getAuthors_undefined_witness:
  "fst (getAuthors example_env quiet_world None) = Inr None
   \<and> fst (getAuthors example_env quiet_world (Some '''')) = Inr None
   \<and> fst (getAuthors example_env quiet_world (Some ''Carol <carol@example.com>''))
       = Inr (Some {''@carol''})
   \<and> matchAll example_env ''Erin'' = []
   \<and> getAuthors example_env quiet_world (Some ''Erin'') = (Inr (Some {}), quiet_world)"
proof -
  have m: "matchAll example_env ''Erin'' = []"
    by (simp add: example_env_def example_matchAll_def)
  have c: "\<forall>t \<in> set (matchAll example_env ''Carol <carol@example.com>'').
             is_handle t \<or> (\<exists>r. search_users example_env t = Inr r)"
    by (simp add: example_env_def example_matchAll_def example_search_def)
  have v: "fst (getAuthors example_env quiet_world (Some ''Carol <carol@example.com>''))
             = Inr (Some {''@carol''})"
    by (simp add: example_defs model_defs)
  from getAuthors_undefined [of example_env quiet_world None]
       getAuthors_undefined [of example_env quiet_world "Some ''''"]
       getAuthors_undefined [of example_env quiet_world "Some ''Carol <carol@example.com>''"
                                "''Carol <carol@example.com>''"]
       getAuthors_undefined [of example_env quiet_world "Some ''Erin''" "''Erin''"] m c v
  show ?thesis by simp
qed

text \<open>The author string is present and empty; the result is \<open>undefined\<close>, not a set.\<close>

theorem getAuthors_empty_string_counterexample:
  "fst (getAuthors example_env quiet_world (Some '''')) = Inr None"
  by (simp add: getAuthors_def truthy_value_def)

text \<open>
  C4: an author token that does not begin with \<open>@\<close> is looked up as an email, with one
  search. When the search returns a result (a positive \<open>total_count\<close> and a first item),
  the resolved value is \<open>@\<close> followed by the login of the first result, lower-cased, and
  nothing is printed. When it returns none, exactly one warning is printed and the
  resolved value is the raw email string, lower-cased.
\<close>

theorem resolveAuthor_email:
  assumes "\<not> is_handle a" and "search_users E a = Inr r"
  shows "resolveAuthor E w a =
           (if 0 < total_count r \<and> items r \<noteq> []
            then (Inr (toLowerCase E (''@'' @ login (hd (items r)))),
                  w\<lparr>searches := searches w @ [a]\<rparr>)
            else (Inr (toLowerCase E a),
                  w\<lparr>searches := searches w @ [a],
                    warnings := warnings w @ [no_user_warning a]\<rparr>))"
  using assms
  by (auto simp: resolveAuthor_def findUserByEmail_def Let_def or_else_def truthy_value_def)

text \<open>Carol is found; Dave is not, and his address is kept, with one warning.\<close>

theorem resolveAuthor_email_witness:
  "resolveAuthor example_env quiet_world ''carol@example.com''
     = (Inr ''@carol'', \<lparr>searches = [''carol@example.com''], warnings = [],
                          classifications = []\<rparr>)
   \<and> resolveAuthor example_env quiet_world ''Dave@example.com''
     = (Inr ''dave@example.com'',
        \<lparr>searches = [''Dave@example.com''],
         warnings = [''No github user found, using email instead: Dave@example.com''],
         classifications = []\<rparr>)"
proof -
  have c: "\<not> is_handle ''carol@example.com''" and d: "\<not> is_handle ''Dave@example.com''"
    by (simp_all add: is_handle_def)
  have sc: "search_users example_env ''carol@example.com''
              = Inr \<lparr>total_count = 1, items = [\<lparr>login = ''Carol''\<rparr>]\<rparr>"
    and sd: "search_users example_env ''Dave@example.com''
              = Inr \<lparr>total_count = 0, items = []\<rparr>"
    by (simp_all add: example_env_def example_search_def)
  from resolveAuthor_email [OF c sc, of quiet_world] resolveAuthor_email [OF d sd, of quiet_world]
  show ?thesis
    by (simp add: example_env_def quiet_world_def no_user_warning_def ascii_lower_def)
qed

text \<open>
  C5, as the code has it. The claim reads: for every author list whose extracted tokens
  all begin with \<open>@\<close>, \<open>getAuthors\<close> returns the set of the lower-cased tokens and no user
  search is made. The empty string has no token at all, and for it \<open>getAuthors\<close> returns
  \<open>undefined\<close>, not the empty set. For every non-empty author list whose tokens all begin
  with \<open>@\<close>, the result is exactly the set of the lower-cased tokens, and the world is
  left as it was: no search, no warning.
\<close>

theorem getAuthors_handles_only:
  assumes "raw = Some s" and "s \<noteq> []" and "\<forall>t \<in> set (matchAll E s). is_handle t"
  shows "getAuthors E w raw = (Inr (Some (toLowerCase E ` set (matchAll E s))), w)"
proof -
  from assms(3) have "list_all is_handle (matchAll E s)" by (simp add: list_all_iff)
  then have "resolveAll E w (matchAll E s) = (map (\<lambda>t. Inr (toLowerCase E t)) (matchAll E s), w)"
    by (rule resolveAll_handles)
  with assms(1,2) show ?thesis
    by (simp add: getAuthors_def truthy_value_def promise_all_values)
qed

theorem getAuthors_handles_only_witness:
  "getAuthors example_env quiet_world (Some ''Alice (@alice), Bob (@Bob)'')
     = (Inr (Some {''@alice'', ''@bob''}), quiet_world)"
proof -
  have t: "matchAll example_env ''Alice (@alice), Bob (@Bob)'' = [''@alice'', ''@Bob'']"
    by (simp add: example_env_def example_matchAll_def)
  have r: "Some ''Alice (@alice), Bob (@Bob)'' = Some ''Alice (@alice), Bob (@Bob)''"
    and n: "''Alice (@alice), Bob (@Bob)'' \<noteq> []"
    and h: "\<forall>t \<in> set (matchAll example_env ''Alice (@alice), Bob (@Bob)''). is_handle t"
    by (simp_all add: t is_handle_def)
  from getAuthors_handles_only [OF r n h, of quiet_world] t
  show ?thesis by (simp add: example_env_def ascii_lower_def)
qed

text \<open>No token is extracted from the empty author list, and the result is \<open>undefined\<close>.\<close>

theorem getAuthors_handles_only_counterexample:
  "matchAll example_env '''' = []
   \<and> getAuthors example_env quiet_world (Some '''') = (Inr None, quiet_world)"
  by (simp add: example_env_def example_matchAll_def getAuthors_def truthy_value_def)

section \<open>The file formatter\<close>

text \<open>
  C3, as the code has it. The claim reads: when the file name yields an identifier,
  \<open>formatFile\<close> validates the presence of no attribute, and any absent attribute (eip,
  status, author, category, type) is passed through as \<open>undefined\<close> instead of making
  \<open>formatFile\<close> itself fail. That is so for four of the five. The status is lower-cased
  on the spot, so without a status \<open>formatFile\<close> fails by itself. For every parsed file
  whose name yields an identifier and whose status attribute is present: \<open>formatFile\<close>
  fails only with a failure of the author resolution or of the classification rule;
  otherwise the eip attribute goes into \<open>eipNum\<close> as it is, absent or not; the category and
  type attributes go to the classification rule as they are; and an absent author
  attribute gives \<open>authors = undefined\<close> without any failure.
\<close>

theorem formatFile_passes_absent_attributes:
  assumes "requireFilenameEipNum E (file_name file) = Inr (Some num)" and "num \<noteq> 0"
    and "attributes (file_content file) Attr_status = Some st"
  shows "fst (formatFile E w file) =
           (case fst (getAuthors E w (attributes (file_content file) Attr_author)) of
              Inl e \<Rightarrow> Inl e
            | Inr as \<Rightarrow>
                (case assertCategory E (classify_input file) of
                   Inl e \<Rightarrow> Inl e
                 | Inr c \<Rightarrow>
                     Inr \<lparr>eipNum = attributes (file_content file) Attr_eip,
                          status = toLowerCase E st,
                          authors = as,
                          name = file_name file,
                          filenameEipNum = num,
                          category = cls_category c,
                          type = cls_type c\<rparr>))
       \<and> (attributes (file_content file) Attr_author = None \<longrightarrow>
            getAuthors E w (attributes (file_content file) Attr_author) = (Inr None, w))"
  using assms
  by (auto simp: formatFile_def truthy_number_def call_assertCategory_def classify_input_def
        getAuthors_def truthy_value_def
      split: prod.splits sum.splits)

text \<open>A header with a status and nothing else is formatted, every other field absent.\<close>

theorem formatFile_passes_absent_attributes_witness:
  "fst (formatFile example_env quiet_world
        \<lparr>file_path = ''EIPS/eip-1.md'', file_name = ''eip-1.md'',
         file_content = \<lparr>attributes = Map.empty(Attr_status \<mapsto> ''Final''),
                         body = ''doc''\<rparr>\<rparr>)
     = Inr \<lparr>eipNum = None, status = ''final'', authors = None, name = ''eip-1.md'',
            filenameEipNum = 1, category = None, type = None\<rparr>"
proof -
  let ?file = "\<lparr>file_path = ''EIPS/eip-1.md'', file_name = ''eip-1.md'',
         file_content = \<lparr>attributes = Map.empty(Attr_status \<mapsto> ''Final''),
                         body = ''doc''\<rparr>\<rparr>"
  have n: "requireFilenameEipNum example_env (file_name ?file) = Inr (Some 1)"
    by (simp add: example_env_def)
  have z: "(1::int) \<noteq> 0" by simp
  have s: "attributes (file_content ?file) Attr_status = Some ''Final''" by simp
  from formatFile_passes_absent_attributes [OF n z s, of quiet_world]
  show ?thesis
    by (simp add: example_env_def classify_input_def ascii_lower_def)
qed

text \<open>The header of \<open>EIPS/eip-1.md\<close> without its status: \<open>formatFile\<close> fails by itself.\<close>

theorem formatFile_absent_status_counterexample:
  "requireFilenameEipNum example_env ''eip-1.md'' = Inr (Some 1)
   \<and> fst (formatFile example_env quiet_world
        \<lparr>file_path = ''EIPS/eip-1.md'', file_name = ''eip-1.md'',
         file_content = \<lparr>attributes = example_attributes(Attr_status := None),
                         body = ''doc''\<rparr>\<rparr>) = Inl TypeError"
  by (simp add: example_defs model_defs)

text \<open>
  C6: whenever \<open>formatFile\<close> returns a formatted file, it has called the classification
  rule exactly twice, both times with the same three inputs (the category attribute, the
  file name, the type attribute); the category comes from the first result and the type
  from the second, and together they are the result of one classification call on those
  inputs.
\<close>

theorem formatFile_classifies_twice:
  assumes "formatFile E w file = (Inr f, w')"
  shows "classifications w' = classifications w @ [classify_input file, classify_input file]
       \<and> assertCategory E (classify_input file)
           = Inr \<lparr>cls_category = category f, cls_type = type f\<rparr>"
proof -
  have "classifications (snd (getAuthors E w (attributes (file_content file) Attr_author)))
      = classifications w"
    by (rule getAuthors_classifications)
  with assms show ?thesis
    by (auto simp: formatFile_def call_assertCategory_def classify_input_def
          split: sum.splits option.splits prod.splits)
qed

theorem formatFile_classifies_twice_witness:
  "assertCategory example_env (classify_input example_head)
     = Inr \<lparr>cls_category = Some ''Core'', cls_type = Some ''Standards Track''\<rparr>
   \<and> classifications (snd (formatFile example_env quiet_world example_head))
     = [classify_input example_head, classify_input example_head]
   \<and> category example_formatted = Some ''Core''
   \<and> type example_formatted = Some ''Standards Track''"
proof -
  have f: "formatFile example_env quiet_world example_head
             = (Inr example_formatted, snd (formatFile example_env quiet_world example_head))"
    using example_format by (cases "formatFile example_env quiet_world example_head") simp
  from formatFile_classifies_twice [OF f]
  show ?thesis by (simp add: example_formatted_def quiet_world_def)
qed

text \<open>
  C7: when the extraction rule yields no identifier for the name of a parsed file (it
  returns \<open>undefined\<close>, or the falsy number 0), \<open>formatFile\<close> fails with the extraction
  message, which quotes the path of that file. It does so before any attribute is read:
  whatever the content of the file, the failure is the same, and nothing has been
  searched, printed or classified.
\<close>

theorem formatFile_no_identifier:
  assumes "requireFilenameEipNum E (file_name file) = Inr x" and "truthy_number x = None"
  shows "formatFile E w (file\<lparr>file_content := c\<rparr>) =
           (Inl (Thrown (''Failed to extract eip number from file '' @ [CHR 0x22]
                          @ file_path file @ [CHR 0x22])), w)"
  using assms by (simp add: formatFile_def extraction_message_def)

theorem formatFile_no_identifier_witness:
  \<open>formatFile example_env quiet_world
     \<lparr>file_path = ''EIPS/draft.md'', file_name = ''draft.md'',
      file_content = \<lparr>attributes = Map.empty, body = []\<rparr>\<rparr>
    = (Inl (Thrown ''Failed to extract eip number from file "EIPS/draft.md"''), quiet_world)
   \<and> formatFile example_env quiet_world
     \<lparr>file_path = ''EIPS/eip-0.md'', file_name = ''eip-0.md'',
      file_content = \<lparr>attributes = example_attributes, body = ''doc''\<rparr>\<rparr>
    = (Inl (Thrown ''Failed to extract eip number from file "EIPS/eip-0.md"''), quiet_world)\<close>
proof -
  let ?d = "\<lparr>file_path = ''EIPS/draft.md'', file_name = ''draft.md'',
      file_content = \<lparr>attributes = example_attributes, body = ''doc''\<rparr>\<rparr>"
  let ?z = "\<lparr>file_path = ''EIPS/eip-0.md'', file_name = ''eip-0.md'',
      file_content = \<lparr>attributes = example_attributes, body = ''doc''\<rparr>\<rparr>"
  have d: "requireFilenameEipNum example_env (file_name ?d) = Inr None"
    and z: "requireFilenameEipNum example_env (file_name ?z) = Inr (Some 0)"
    by (simp_all add: example_env_def)
  have tn: "truthy_number None = None" and tz: "truthy_number (Some 0) = None"
    by (simp_all add: truthy_number_def)
  from formatFile_no_identifier [OF d tn, of quiet_world "\<lparr>attributes = Map.empty, body = []\<rparr>"]
       formatFile_no_identifier [OF z tz, of quiet_world
         "\<lparr>attributes = example_attributes, body = ''doc''\<rparr>"]
  show ?thesis by simp
qed

text \<open>
  C9: \<open>formatFile\<close> is deterministic. With the collaborators fixed, its result depends on
  the parsed file alone: formatting a file again, in the world the first formatting left
  behind, gives the same result, and so does formatting it from any other world.
\<close>

theorem formatFile_deterministic:
  "fst (formatFile E (snd (formatFile E w file)) file) = fst (formatFile E w file)
   \<and> (\<forall>w'. fst (formatFile E w' file) = fst (formatFile E w file))"
  using formatFile_result [of E _ "file" w] by simp

theorem formatFile_deterministic_witness:
  "fst (formatFile example_env (snd (formatFile example_env quiet_world example_head))
          example_head) = Inr example_formatted"
  using formatFile_deterministic [of example_env quiet_world example_head] example_format
  by simp

section \<open>The content fetcher\<close>

text \<open>
  C8: when the content API answers but the record it returns lacks its content, its path
  or its name (the field is \<open>undefined\<close>, or the empty string), \<open>getParsedContent\<close> fails.
  There is one check for each of the three fields, made in that order, and the first
  that fails decides the message. Each message names the file name and the revision, and
  the three messages differ from each other.
\<close>

theorem getParsedContent_missing_field:
  assumes "getContent E f sha = Inr data"
    and "truthy_value (opt_chain data data_content) = None
       \<or> truthy_value (opt_chain data data_path) = None
       \<or> truthy_value (opt_chain data data_name) = None"
  shows "getParsedContent E f sha =
           Inl (Thrown
             (if truthy_value (opt_chain data data_content) = None then
                ''requested file '' @ f @ '' at ref sha '' @ sha @ '' contains no content''
              else if truthy_value (opt_chain data data_path) = None then
                ''requested file '' @ f @ '' at ref sha '' @ sha @ '' has no path''
              else
                ''requested file '' @ f @ '' at ref sha '' @ sha @ '' has no name''))
       \<and> no_content_message f sha \<noteq> no_path_message f sha
       \<and> no_content_message f sha \<noteq> no_name_message f sha
       \<and> no_path_message f sha \<noteq> no_name_message f sha"
  using assms getParsedContent_checks [OF assms(1)] messages_distinct [of f sha]
  by (auto simp: no_content_message_def no_path_message_def no_name_message_def
        split: option.splits)

text \<open>A directory has no content; \<open>eip-3\<close> comes without a path, \<open>eip-4\<close> without a name.\<close>

theorem getParsedContent_missing_field_witness:
  "getParsedContent example_env ''EIPS'' ''headsha''
     = Inl (Thrown ''requested file EIPS at ref sha headsha contains no content'')
   \<and> getParsedContent example_env ''EIPS/eip-3.md'' ''headsha''
     = Inl (Thrown ''requested file EIPS/eip-3.md at ref sha headsha has no path'')
   \<and> getParsedContent example_env ''EIPS/eip-4.md'' ''headsha''
     = Inl (Thrown ''requested file EIPS/eip-4.md at ref sha headsha has no name'')"
proof -
  have a: "getContent example_env ''EIPS'' ''headsha'' = Inr None"
    and b: "getContent example_env ''EIPS/eip-3.md'' ''headsha''
          = Inr (Some \<lparr>data_content = Some ''doc'', data_encoding = Some ''utf-16'',
                   data_path = None, data_name = Some ''eip-3.md''\<rparr>)"
    and c: "getContent example_env ''EIPS/eip-4.md'' ''headsha''
          = Inr (Some \<lparr>data_content = Some ''doc'', data_encoding = Some ''base64'',
                   data_path = Some ''EIPS/eip-4.md'', data_name = None\<rparr>)"
    by (simp_all add: example_env_def example_getContent_def)
  from getParsedContent_missing_field [OF a] getParsedContent_missing_field [OF b]
       getParsedContent_missing_field [OF c]
  show ?thesis by (simp add: truthy_value_def opt_chain_def)
qed

text \<open>
  C10: the three field checks come before the encoding is looked at. When the record's
  encoding is one that \<open>requireEncoding\<close> refuses, a record that lacks its content, path
  or name still fails with the message of the missing field; the refusal of the encoding
  is the outcome only when all three fields are there.
\<close>

theorem getParsedContent_fields_before_encoding:
  assumes "getContent E f sha = Inr data"
    and "requireEncoding E (opt_chain data data_encoding) f = Inl e"
  shows "getParsedContent E f sha =
           (if truthy_value (opt_chain data data_content) = None
              then Inl (Thrown (no_content_message f sha))
            else if truthy_value (opt_chain data data_path) = None
              then Inl (Thrown (no_path_message f sha))
            else if truthy_value (opt_chain data data_name) = None
              then Inl (Thrown (no_name_message f sha))
            else Inl e)"
  using assms(2) getParsedContent_checks [OF assms(1)]
  by (auto split: option.splits)

text \<open>The record of \<open>eip-3\<close> has no path and an encoding that is refused.\<close>

theorem getParsedContent_fields_before_encoding_witness:
  "requireEncoding example_env (Some ''utf-16'') ''EIPS/eip-3.md''
     = Inl (Rejected ''unknown encoding'')
   \<and> getParsedContent example_env ''EIPS/eip-3.md'' ''headsha''
     = Inl (Thrown ''requested file EIPS/eip-3.md at ref sha headsha has no path'')"
proof -
  let ?data = "Some \<lparr>data_content = Some ''doc'', data_encoding = Some ''utf-16'',
                   data_path = None, data_name = Some ''eip-3.md''\<rparr>"
  have g: "getContent example_env ''EIPS/eip-3.md'' ''headsha'' = Inr ?data"
    by (simp add: example_env_def example_getContent_def)
  have e: "requireEncoding example_env (opt_chain ?data data_encoding) ''EIPS/eip-3.md''
             = Inl (Rejected ''unknown encoding'')"
    by (simp add: example_env_def opt_chain_def)
  from getParsedContent_fields_before_encoding [OF g e] e
  show ?thesis by (simp add: truthy_value_def opt_chain_def no_path_message_def)
qed

end
